theory Spec2Isabelle
  imports Complex_Main "HOL-Library.Sublist"
begin

section \<open>JavaScript values used by the billing core\<close>

text \<open>
  Numbers that the code compares or adds as whole numbers (days overdue, anomaly and
  similarity scores, the \<open>INTEGER\<close> columns of the schema) are \<open>int\<close>. An object
  property that may be absent, \<open>null\<close> or \<open>undefined\<close> is an \<open>option\<close>, so that the
  source's \<open>x || default\<close> is a case distinction of the model.
\<close>

definition digit_char :: "int \<Rightarrow> char" where
  "digit_char d = ''0123456789'' ! nat (d mod 10)"

text \<open>The decimal digits of a number that is not negative.\<close>

function show_digits :: "int \<Rightarrow> string" where
  "show_digits i = (if i < 10 then [digit_char i] else show_digits (i div 10) @ [digit_char i])"
  by pat_completeness auto
termination
  by (relation "measure nat") auto

declare show_digits.simps [simp del]

text \<open>\<open>String(n)\<close> and \<open>`${n}`\<close> for an integral number.\<close>

definition show_int :: "int \<Rightarrow> string" where
  "show_int i = (if i < 0 then ''-'' @ show_digits (- i) else show_digits i)"

text \<open>\<open>`${s}`\<close> for a property holding a string or \<open>null\<close>.\<close>

definition template_str :: "string option \<Rightarrow> string" where
  "template_str s = (case s of None \<Rightarrow> ''null'' | Some t \<Rightarrow> t)"

text \<open>\<open>s.padStart(n, '0')\<close>.\<close>

definition padStart0 :: "nat \<Rightarrow> string \<Rightarrow> string" where
  "padStart0 n s = replicate (n - length s) (CHR ''0'') @ s"


section \<open>The Date object\<close>

text \<open>
  A \<open>Date\<close> is its time value, the milliseconds since 1970-01-01T00:00Z, an \<open>int\<close>. The
  functions below are the abstract operations of ECMA-262 (21.4.1) that the methods used
  by the schedulers are defined by: \<open>Day\<close>, \<open>TimeWithinDay\<close>, \<open>DaysInYear\<close>,
  \<open>DayFromYear\<close>, \<open>YearFromTime\<close>, \<open>MonthFromTime\<close>, \<open>DateFromTime\<close>, \<open>MakeDay\<close>,
  \<open>MakeDate\<close>. \<open>YearFromTime(t)\<close>, "the largest integer y such that
  TimeFromYear(y) \<le> t", is computed by a search from an estimate. \<open>TimeClip\<close> is left out:
  the time values of the model stay far inside its range.
\<close>

definition msPerDay :: int where
  "msPerDay = 86400000"

definition Day :: "int \<Rightarrow> int" where
  "Day t = t div msPerDay"

definition TimeWithinDay :: "int \<Rightarrow> int" where
  "TimeWithinDay t = t mod msPerDay"

definition DaysInYear :: "int \<Rightarrow> int" where
  "DaysInYear y =
     (if y mod 4 \<noteq> 0 then 365 else if y mod 100 \<noteq> 0 then 366
      else if y mod 400 \<noteq> 0 then 365 else 366)"

definition DayFromYear :: "int \<Rightarrow> int" where
  "DayFromYear y =
     365 * (y - 1970) + (y - 1969) div 4 - (y - 1901) div 100 + (y - 1601) div 400"

lemma div_step:
  fixes a k :: int
  assumes "0 < k"
  shows "(a + 1) div k = a div k + (if (a + 1) mod k = 0 then 1 else 0)"
proof -
  have e: "k * (a div k) + a mod k = a" by (rule mult_div_mod_eq)
  have lo: "0 \<le> a mod k" and hi: "a mod k < k"
    using assms by simp_all
  show ?thesis
  proof (cases "a mod k + 1 = k")
    case True
    have "k * (a div k + 1) = k * (a div k) + k" by (simp add: algebra_simps)
    with e True have "a + 1 = k * (a div k + 1) + 0" by linarith
    with assms have "(a + 1) div k = a div k + 1" "(a + 1) mod k = 0"
      using int_div_pos_eq [of "a + 1" k "a div k + 1" 0]
        int_mod_pos_eq [of "a + 1" k "a div k + 1" 0] by simp_all
    then show ?thesis by simp
  next
    case False
    with lo hi have r: "0 \<le> a mod k + 1" "a mod k + 1 < k" by linarith+
    from e have "a + 1 = k * (a div k) + (a mod k + 1)" by linarith
    with r have "(a + 1) div k = a div k" "(a + 1) mod k = a mod k + 1"
      using int_div_pos_eq [of "a + 1" k "a div k" "a mod k + 1"]
        int_mod_pos_eq [of "a + 1" k "a div k" "a mod k + 1"] by simp_all
    with lo show ?thesis by simp
  qed
qed

lemma mod_shift:
  fixes y k q :: int
  shows "(y - k * q) mod k = y mod k"
proof -
  have "(y - k * q) mod k = (y + k * (- q)) mod k" by simp
  also have "\<dots> = y mod k" by (rule mod_mult_self2)
  finally show ?thesis .
qed

lemma mod_0_trans:
  fixes y j k :: int
  assumes "y mod k = 0" "j dvd k"
  shows "y mod j = 0"
proof -
  from assms(1) have "k dvd y" by (simp add: mod_eq_0_iff_dvd)
  with assms(2) have "j dvd y" by (rule dvd_trans)
  then show ?thesis by (simp add: mod_eq_0_iff_dvd)
qed

lemma DayFromYear_Suc: "DayFromYear (y + 1) = DayFromYear y + DaysInYear y"
proof -
  have "(y - 1969 + 1) mod 4 = y mod 4"
    using mod_shift [of y 4 492] by simp
  then have a: "(y - 1969 + 1) div 4 = (y - 1969) div 4 + (if y mod 4 = 0 then 1 else 0)"
    using div_step [of 4 "y - 1969"] by simp
  have "(y - 1901 + 1) mod 100 = y mod 100"
    using mod_shift [of y 100 19] by simp
  then have b: "(y - 1901 + 1) div 100 = (y - 1901) div 100 + (if y mod 100 = 0 then 1 else 0)"
    using div_step [of 100 "y - 1901"] by simp
  have "(y - 1601 + 1) mod 400 = y mod 400"
    using mod_shift [of y 400 4] by simp
  then have c: "(y - 1601 + 1) div 400 = (y - 1601) div 400 + (if y mod 400 = 0 then 1 else 0)"
    using div_step [of 400 "y - 1601"] by simp
  have e: "y + 1 - 1969 = y - 1969 + 1" "y + 1 - 1901 = y - 1901 + 1"
    "y + 1 - 1601 = y - 1601 + 1" by simp_all
  have i: "y mod 400 = 0 \<Longrightarrow> y mod 100 = 0" "y mod 100 = 0 \<Longrightarrow> y mod 4 = 0"
    using mod_0_trans [of y 400 100] mod_0_trans [of y 100 4] by simp_all
  show ?thesis
    unfolding DayFromYear_def DaysInYear_def e a b c using i by auto
qed

lemma DaysInYear_bounds: "365 \<le> DaysInYear y" "DaysInYear y \<le> 366"
  unfolding DaysInYear_def by auto

lemma DayFromYear_less: "DayFromYear y < DayFromYear (y + 1)"
  using DayFromYear_Suc [of y] DaysInYear_bounds(1) [of y] by simp

function year_down :: "int \<Rightarrow> int \<Rightarrow> int" where
  "year_down y n = (if n < DayFromYear y then year_down (y - 1) n else y)"
  by pat_completeness auto
termination
proof (relation "measure (\<lambda>(y, n). nat (DayFromYear y - n))")
  show "wf (measure (\<lambda>(y, n). nat (DayFromYear y - n)))" by simp
next
  fix y n :: int
  assume "n < DayFromYear y"
  then show "((y - 1, n), (y, n)) \<in> measure (\<lambda>(y, n). nat (DayFromYear y - n))"
    using DayFromYear_less [of "y - 1"] by simp
qed

function year_up :: "int \<Rightarrow> int \<Rightarrow> int" where
  "year_up y n = (if DayFromYear (y + 1) \<le> n then year_up (y + 1) n else y)"
  by pat_completeness auto
termination
proof (relation "measure (\<lambda>(y, n). nat (n + 1 - DayFromYear (y + 1)))")
  show "wf (measure (\<lambda>(y, n). nat (n + 1 - DayFromYear (y + 1))))" by simp
next
  fix y n :: int
  assume "DayFromYear (y + 1) \<le> n"
  then show "((y + 1, n), (y, n)) \<in> measure (\<lambda>(y, n). nat (n + 1 - DayFromYear (y + 1)))"
    using DayFromYear_less [of "y + 1"] by simp
qed

declare year_down.simps [simp del] year_up.simps [simp del]

definition YearFromDay :: "int \<Rightarrow> int" where
  "YearFromDay n = year_up (year_down (1970 + n div 365) n) n"

definition InLeapYear_of :: "int \<Rightarrow> int" where
  "InLeapYear_of y = (if DaysInYear y = 366 then 1 else 0)"

definition monthStart :: "int \<Rightarrow> int \<Rightarrow> int" where
  "monthStart l m =
     (if m = 0 then 0 else if m = 1 then 31 else if m = 2 then 59 + l
      else if m = 3 then 90 + l else if m = 4 then 120 + l else if m = 5 then 151 + l
      else if m = 6 then 181 + l else if m = 7 then 212 + l else if m = 8 then 243 + l
      else if m = 9 then 273 + l else if m = 10 then 304 + l else 334 + l)"

definition MonthFromDay :: "int \<Rightarrow> int \<Rightarrow> int" where
  "MonthFromDay d l =
     (if d < 31 then 0 else if d < 59 + l then 1 else if d < 90 + l then 2
      else if d < 120 + l then 3 else if d < 151 + l then 4 else if d < 181 + l then 5
      else if d < 212 + l then 6 else if d < 243 + l then 7 else if d < 273 + l then 8
      else if d < 304 + l then 9 else if d < 334 + l then 10 else 11)"

definition YearFromTime :: "int \<Rightarrow> int" where
  "YearFromTime t = YearFromDay (Day t)"

definition InLeapYear :: "int \<Rightarrow> int" where
  "InLeapYear t = InLeapYear_of (YearFromTime t)"

definition DayWithinYear :: "int \<Rightarrow> int" where
  "DayWithinYear t = Day t - DayFromYear (YearFromTime t)"

definition MonthFromTime :: "int \<Rightarrow> int" where
  "MonthFromTime t = MonthFromDay (DayWithinYear t) (InLeapYear t)"

definition DateFromTime :: "int \<Rightarrow> int" where
  "DateFromTime t = DayWithinYear t - monthStart (InLeapYear t) (MonthFromTime t) + 1"

definition MakeDay :: "int \<Rightarrow> int \<Rightarrow> int \<Rightarrow> int" where
  "MakeDay year month date =
     (let ym = year + month div 12; mn = month mod 12
      in DayFromYear ym + monthStart (InLeapYear_of ym) mn + date - 1)"

definition MakeDate :: "int \<Rightarrow> int \<Rightarrow> int" where
  "MakeDate day time = day * msPerDay + time"

definition DaysInMonth :: "int \<Rightarrow> int \<Rightarrow> int" where
  "DaysInMonth y m =
     (if m = 1 then 28 + InLeapYear_of y
      else if m = 3 \<or> m = 5 \<or> m = 8 \<or> m = 10 then 30 else 31)"

text \<open>
  The methods of \<open>Date.prototype\<close> that the schedulers call. The \<open>get\<close> and \<open>set\<close> methods
  work on local time, \<open>LocalTime(t) = t + LocalTZA\<close>; the offset \<open>tza\<close> of the process's time
  zone is a parameter, constant over the dates involved (a zone without daylight saving
  transitions). \<open>setDate\<close>, \<open>setMonth\<close> and \<open>setFullYear\<close> return the new time value.
\<close>

definition LocalTime :: "int \<Rightarrow> int \<Rightarrow> int" where
  "LocalTime tza t = t + tza"

definition UTC :: "int \<Rightarrow> int \<Rightarrow> int" where
  "UTC tza t = t - tza"

definition getFullYear :: "int \<Rightarrow> int \<Rightarrow> int" where
  "getFullYear tza t = YearFromTime (LocalTime tza t)"

definition getMonth :: "int \<Rightarrow> int \<Rightarrow> int" where
  "getMonth tza t = MonthFromTime (LocalTime tza t)"

definition getDate :: "int \<Rightarrow> int \<Rightarrow> int" where
  "getDate tza t = DateFromTime (LocalTime tza t)"

definition setDate :: "int \<Rightarrow> int \<Rightarrow> int \<Rightarrow> int" where
  "setDate tza t dt =
     (let lt = LocalTime tza t
      in UTC tza (MakeDate (MakeDay (YearFromTime lt) (MonthFromTime lt) dt) (TimeWithinDay lt)))"

definition setMonth :: "int \<Rightarrow> int \<Rightarrow> int \<Rightarrow> int" where
  "setMonth tza t m =
     (let lt = LocalTime tza t
      in UTC tza (MakeDate (MakeDay (YearFromTime lt) m (DateFromTime lt)) (TimeWithinDay lt)))"

definition setFullYear :: "int \<Rightarrow> int \<Rightarrow> int \<Rightarrow> int" where
  "setFullYear tza t y =
     (let lt = LocalTime tza t
      in UTC tza (MakeDate (MakeDay y (MonthFromTime lt) (DateFromTime lt)) (TimeWithinDay lt)))"

text \<open>
  A calendar date \<open>YYYY-MM-DD\<close>, the value of a \<open>DATE\<close> column and of
  \<open>date.toISOString().split('T')[0]\<close>: the UTC year, month (1 to 12) and day of the time
  value. \<open>iso_string\<close> is the text, \<open>dayNumber\<close> the number of the day since 1970-01-01, and
  \<open>parseDate\<close> the time value of \<open>new Date('YYYY-MM-DD')\<close>, midnight UTC of that day.
\<close>

record ymd =
  year :: int
  month :: int
  day :: int

definition toISODate :: "int \<Rightarrow> ymd" where
  "toISODate t = \<lparr> year = YearFromTime t, month = MonthFromTime t + 1, day = DateFromTime t \<rparr>"

definition iso_string :: "ymd \<Rightarrow> string" where
  "iso_string c =
     (if 0 \<le> year c \<and> year c \<le> 9999 then padStart0 4 (show_int (year c))
      else (if year c < 0 then ''-'' else ''+'') @ padStart0 6 (show_int (\<bar>year c\<bar>)))
     @ ''-'' @ padStart0 2 (show_int (month c)) @ ''-'' @ padStart0 2 (show_int (day c))"

definition dayNumber :: "ymd \<Rightarrow> int" where
  "dayNumber c = MakeDay (year c) (month c - 1) (day c)"

definition parseDate :: "ymd \<Rightarrow> int" where
  "parseDate c = MakeDate (dayNumber c) 0"




section \<open>BillingScheduler: the billing calculator\<close>

text \<open>
  \<open>x.toFixed(2)\<close>, as the number its text denotes: the integer \<open>n\<close> with \<open>n / 100\<close> nearest
  to the magnitude of \<open>x\<close>, the larger one on a tie, under the sign of \<open>x\<close>. \<open>show_fixed2\<close>
  prints such a number with its two decimals. Amounts are exact rationals: the
  representation error of IEEE doubles is outside the model.
\<close>

definition toFixed2 :: "rat \<Rightarrow> rat" where
  "toFixed2 x =
     (if x < 0 then - (of_int \<lfloor>- x * 100 + 1 / 2\<rfloor> / 100) else of_int \<lfloor>x * 100 + 1 / 2\<rfloor> / 100)"


text \<open>
  A row of the \<open>contracts\<close> table as the scheduler reads it (\<open>c_id\<close> is the column \<open>id\<close>).
  \<open>amount\<close> is \<open>DECIMAL(10,2) NOT NULL\<close>, so \<open>parseFloat(contract.amount)\<close> is a number;
  \<open>tax_rate\<close> and \<open>discount_percentage\<close> may be \<open>NULL\<close>, which \<open>contract.tax_rate || 0\<close> turns
  into 0. Columns that the billing core never reads are left out.
\<close>

record contract =
  c_id :: nat
  customer_id :: nat
  amount :: rat
  tax_rate :: "rat option"
  discount_percentage :: "rat option"
  billing_frequency :: string
  next_billing_date :: "ymd option"
  is_active :: bool

text \<open>The object that \<open>calculateInvoiceAmounts\<close> returns and \<open>Invoice.create\<close> inserts.\<close>

record invoice_data =
  invoice_number :: string
  customer_id :: nat
  contract_id :: nat
  issue_date :: ymd
  due_date :: ymd
  subtotal :: rat
  tax_amount :: rat
  discount_amount :: rat
  total_amount :: rat
  status :: string

definition number_or_0 :: "rat option \<Rightarrow> rat" where
  "number_or_0 x = (case x of None \<Rightarrow> 0 | Some r \<Rightarrow> r)"

text \<open>\<open>rnd\<close> is the value of \<open>Math.floor(Math.random() * 10000)\<close>, \<open>now\<close> the clock.\<close>

definition generateInvoiceNumber :: "int \<Rightarrow> int \<Rightarrow> int \<Rightarrow> string" where
  "generateInvoiceNumber tza now rnd =
     ''INV-'' @ show_int (getFullYear tza now) @ padStart0 2 (show_int (getMonth tza now + 1))
       @ padStart0 2 (show_int (getDate tza now)) @ ''-'' @ padStart0 4 (show_int rnd)"

definition calculateInvoiceAmounts :: "int \<Rightarrow> int \<Rightarrow> int \<Rightarrow> contract \<Rightarrow> invoice_data" where
  "calculateInvoiceAmounts tza now rnd contract =
     (let subtotal = amount contract;
          taxRate = number_or_0 (tax_rate contract);
          discountPercentage = number_or_0 (discount_percentage contract);
          taxAmount = (subtotal * taxRate) / 100;
          discountAmount = (subtotal * discountPercentage) / 100;
          totalAmount = subtotal + taxAmount - discountAmount;
          invoiceNumber = generateInvoiceNumber tza now rnd;
          issueDate = now;
          dueDate = setDate tza issueDate (getDate tza issueDate + 30)
      in \<lparr> invoice_number = invoiceNumber,
           customer_id = contract.customer_id contract,
           contract_id = c_id contract,
           issue_date = toISODate issueDate,
           due_date = toISODate dueDate,
           subtotal = toFixed2 subtotal,
           tax_amount = toFixed2 taxAmount,
           discount_amount = toFixed2 discountAmount,
           total_amount = toFixed2 totalAmount,
           status = ''pending'' \<rparr>)"

text \<open>
  \<open>currentDate\<close> is the time value of \<open>new Date(currentDate)\<close>. The \<open>switch\<close> compares the
  frequency with four strings and advances by one month for any other.
\<close>

definition calculateNextBillingDate :: "int \<Rightarrow> int \<Rightarrow> string \<Rightarrow> ymd option" where
  "calculateNextBillingDate tza currentDate frequency =
     (if frequency = ''monthly''
      then Some (toISODate (setMonth tza currentDate (getMonth tza currentDate + 1)))
      else if frequency = ''quarterly''
      then Some (toISODate (setMonth tza currentDate (getMonth tza currentDate + 3)))
      else if frequency = ''yearly''
      then Some (toISODate (setFullYear tza currentDate (getFullYear tza currentDate + 1)))
      else if frequency = ''one-time'' then None
      else Some (toISODate (setMonth tza currentDate (getMonth tza currentDate + 1))))"

text \<open>The contract of the specification's scenario, due on 2024-12-08.\<close>

definition scenario_contract :: contract where
  "scenario_contract =
     \<lparr> c_id = 1, customer_id = 1, amount = 5000, tax_rate = Some (17 / 2),
       discount_percentage = Some 0, billing_frequency = ''monthly'',
       next_billing_date = Some \<lparr> year = 2024, month = 12, day = 8 \<rparr>, is_active = True \<rparr>"


section \<open>ReminderScheduler.shouldSendReminder\<close>

text \<open>
  \<^verbatim>\<open>
  shouldSendReminder(daysOverdue) {
      if (daysOverdue <= 0) return false;
      if (daysOverdue <= 7)  return daysOverdue === 3 || daysOverdue === 7;
      if (daysOverdue <= 14) return daysOverdue === 10 || daysOverdue === 14;
      if (daysOverdue <= 30) return daysOverdue % 5 === 0;
      return daysOverdue % 7 === 0;
  }
  \<close>
  The argument is \<open>Math.floor\<close> of a quotient, a whole number. The remainders are only
  taken of positive numbers, where JavaScript's \<open>%\<close> and \<open>mod\<close> agree.
\<close>

definition shouldSendReminder :: "int \<Rightarrow> bool" where
  "shouldSendReminder daysOverdue =
     (if daysOverdue \<le> 0 then False
      else if daysOverdue \<le> 7 then daysOverdue = 3 \<or> daysOverdue = 7
      else if daysOverdue \<le> 14 then daysOverdue = 10 \<or> daysOverdue = 14
      else if daysOverdue \<le> 30 then daysOverdue mod 5 = 0
      else daysOverdue mod 7 = 0)"


section \<open>AIValidator.combineResults\<close>

text \<open>
  The correctness verdict is the parsed JSON object of the AI service, the duplicate-check
  verdict the object of \<open>checkDuplicates\<close>. The combined verdict is an object of the same
  shape with every property present and the duplicate-check verdict embedded.
\<close>

record dupcheck =
  is_duplicate :: bool
  duplicate_of :: "string option"
  similarity_score :: int
  explanation :: string

record verdict =
  validation_status :: string
  anomaly_score :: int
  flags :: "string list option"
  suggestions :: "string option"
  confidence :: "int option"
  duplicate_check :: "dupcheck option"

text \<open>\<open>validationResult.flags || []\<close>, \<open>validationResult.suggestions || ''\<close> and
  \<open>validationResult.confidence || 80\<close> (\<open>0\<close> is falsy).\<close>

definition flags_or_empty :: "verdict \<Rightarrow> string list" where
  "flags_or_empty v = (case flags v of None \<Rightarrow> [] | Some fs \<Rightarrow> fs)"

definition suggestions_or_empty :: "verdict \<Rightarrow> string" where
  "suggestions_or_empty v = (case suggestions v of None \<Rightarrow> [] | Some s \<Rightarrow> s)"

definition confidence_or_80 :: "verdict \<Rightarrow> int" where
  "confidence_or_80 v = (case confidence v of None \<Rightarrow> 80 | Some c \<Rightarrow> if c = 0 then 80 else c)"

text \<open>
  The four variables that \<open>combineResults\<close> declares with \<open>let\<close> and then assigns to, and the
  two \<open>if\<close> statements that assign to them.
\<close>

record combining =
  finalStatus :: string
  finalScore :: int
  finalFlags :: "string list"
  finalSuggestions :: string

definition duplicate_branch :: "dupcheck \<Rightarrow> combining \<Rightarrow> combining" where
  "duplicate_branch duplicateCheck c =
     (if is_duplicate duplicateCheck
      then c\<lparr> finalStatus := ''flagged'',
              finalScore := max (finalScore c) 90,
              finalFlags := finalFlags c
                @ [''Possible duplicate of invoice '' @ template_str (duplicate_of duplicateCheck)],
              finalSuggestions := finalSuggestions c
                @ '' DUPLICATE ALERT: This invoice appears to be a duplicate. ''
                @ explanation duplicateCheck \<rparr>
      else if similarity_score duplicateCheck > 70
      then c\<lparr> finalFlags := finalFlags c
                @ [''High similarity ('' @ show_int (similarity_score duplicateCheck)
                   @ ''%) to recent invoices''],
              finalScore := max (finalScore c) 60 \<rparr>
      else c)"

definition status_branch :: "combining \<Rightarrow> combining" where
  "status_branch c =
     (if finalScore c \<ge> 70 then c\<lparr> finalStatus := ''flagged'' \<rparr>
      else if finalScore c \<ge> 40 then c\<lparr> finalStatus := ''validated'' \<rparr>
      else c\<lparr> finalStatus := ''validated'' \<rparr>)"

definition combineResults :: "verdict \<Rightarrow> dupcheck \<Rightarrow> verdict" where
  "combineResults validationResult duplicateCheck =
     (let declared = \<lparr> finalStatus = validation_status validationResult,
                       finalScore = anomaly_score validationResult,
                       finalFlags = flags_or_empty validationResult,
                       finalSuggestions = suggestions_or_empty validationResult \<rparr>;
          final = status_branch (duplicate_branch duplicateCheck declared)
      in \<lparr> validation_status = finalStatus final,
           anomaly_score = finalScore final,
           flags = Some (finalFlags final),
           suggestions = Some (finalSuggestions final),
           confidence = Some (confidence_or_80 validationResult),
           duplicate_check = Some duplicateCheck \<rparr>)"


section \<open>The store, the collaborators and the effects of a call\<close>

text \<open>
  A row of the \<open>invoices\<close> table (\<open>i_id\<close> is the column \<open>id\<close>): the inserted fields and the
  columns the pipeline fills in later.
\<close>

record invoice = invoice_data +
  i_id :: nat
  pdf_url :: "string option"
  ai_validation_status :: string
  ai_anomaly_score :: int
  created_at :: int

text \<open>The \<open>results\<close> object of a billing cycle and of a reminder cycle.\<close>

record results =
  total :: nat
  successful :: nat
  failed :: nat
  flagged :: nat
  errors :: "(nat \<times> string) list"

record reminder_results =
  r_total :: nat
  reminders_sent :: nat
  skipped :: nat
  r_failed :: nat
  low :: nat
  medium :: nat
  high :: nat
  critical :: nat

text \<open>
  Everything a call can change: the tables, the messages that the mail transport has
  accepted (kind and invoice), and the two scheduler objects with their \<open>isRunning\<close> flag
  and the \<open>results\<close> object of the cycle in progress.
\<close>

record state =
  contracts :: "contract list"
  invoices :: "invoice list"
  validation_logs :: "(nat \<times> verdict) list"
  audit_logs :: "(string \<times> nat option \<times> string) list"
  outbox :: "(string \<times> nat) list"
  billing_isRunning :: bool
  billing_results :: results
  reminder_isRunning :: bool
  reminder_results :: reminder_results

text \<open>
  What a call cannot control: the zone and the clock, the random draw for the invoice number
  of a contract, and the answers of the external collaborators. The database is reachable
  once a cycle has read its work list; only that first query can fail. The PDF renderer, the
  object store, the AI service (\<open>None\<close>: the call throws or the text is not JSON) and the
  mail transport answer per invoice.
\<close>

record world =
  zone_offset :: int
  clock :: int
  random_draw :: "nat \<Rightarrow> int"
  due_query_fails :: bool
  overdue_query_fails :: bool
  pdf_fails :: "nat \<Rightarrow> bool"
  upload_url :: "nat \<Rightarrow> string option"
  ai_validation :: "nat \<Rightarrow> verdict option"
  ai_duplicate :: "nat \<Rightarrow> dupcheck option"
  smtp_accepts :: "string \<Rightarrow> nat \<Rightarrow> bool"

text \<open>
  An \<open>async\<close> function: from a state to the value it resolves with or the error it rejects
  with, and the state it leaves. A rejection keeps the writes made before it.
\<close>

datatype exn = Error string

type_synonym 'a io = "state \<Rightarrow> (exn + 'a) \<times> state"

definition io_return :: "'a \<Rightarrow> 'a io" where
  "io_return x = (\<lambda>s. (Inr x, s))"

definition io_throw :: "exn \<Rightarrow> 'a io" where
  "io_throw e = (\<lambda>s. (Inl e, s))"

definition io_bind :: "'a io \<Rightarrow> ('a \<Rightarrow> 'b io) \<Rightarrow> 'b io" where
  "io_bind m f = (\<lambda>s. case m s of (Inl e, s') \<Rightarrow> (Inl e, s') | (Inr x, s') \<Rightarrow> f x s')"

definition io_catch :: "'a io \<Rightarrow> (exn \<Rightarrow> 'a io) \<Rightarrow> 'a io" where
  "io_catch m h = (\<lambda>s. case m s of (Inl e, s') \<Rightarrow> h e s' | (Inr x, s') \<Rightarrow> (Inr x, s'))"

definition io_finally :: "'a io \<Rightarrow> (state \<Rightarrow> state) \<Rightarrow> 'a io" where
  "io_finally m f = (\<lambda>s. case m s of (r, s') \<Rightarrow> (r, f s'))"

definition io_get :: "(state \<Rightarrow> 'a) \<Rightarrow> 'a io" where
  "io_get f = (\<lambda>s. (Inr (f s), s))"

definition io_modify :: "(state \<Rightarrow> state) \<Rightarrow> unit io" where
  "io_modify f = (\<lambda>s. (Inr (), f s))"

fun forEach :: "('a \<Rightarrow> unit io) \<Rightarrow> 'a list \<Rightarrow> unit io" where
  "forEach f [] = io_return ()"
| "forEach f (x # xs) = io_bind (f x) (\<lambda>_. forEach f xs)"


subsection \<open>The models of \<open>database/models.js\<close>\<close>

text \<open>The database gives a new row an identifier that no row has.\<close>

definition new_id :: "state \<Rightarrow> nat" where
  "new_id s = Suc (foldr max (map i_id (invoices s)) 0)"

text \<open>\<open>Invoice.create\<close>: the insert fails when the invoice number is taken (\<open>UNIQUE\<close>).\<close>

definition Invoice_create :: "world \<Rightarrow> invoice_data \<Rightarrow> invoice io" where
  "Invoice_create w invoiceData =
     (\<lambda>s. if invoice_number invoiceData \<in> set (map invoice_number (invoices s))
           then (Inl (Error ''duplicate key value violates unique constraint''), s)
           else
             (let row = \<lparr> invoice_number = invoice_number invoiceData,
                          customer_id = invoice_data.customer_id invoiceData,
                          contract_id = contract_id invoiceData,
                          issue_date = issue_date invoiceData,
                          due_date = due_date invoiceData,
                          subtotal = subtotal invoiceData,
                          tax_amount = tax_amount invoiceData,
                          discount_amount = discount_amount invoiceData,
                          total_amount = total_amount invoiceData,
                          status = (if status invoiceData = [] then ''pending''
                                    else status invoiceData),
                          i_id = new_id s, pdf_url = None,
                          ai_validation_status = ''pending'', ai_anomaly_score = 0,
                          created_at = clock w \<rparr>
              in (Inr row, s\<lparr> invoices := invoices s @ [row] \<rparr>)))"

definition Invoice_findById :: "nat \<Rightarrow> state \<Rightarrow> invoice option" where
  "Invoice_findById ident s = find (\<lambda>i. i_id i = ident) (invoices s)"

definition Invoice_findAll :: "nat \<Rightarrow> state \<Rightarrow> invoice list" where
  "Invoice_findAll limit s = take limit (rev (sort_key created_at (invoices s)))"

definition Invoice_updateStatus :: "nat \<Rightarrow> string \<Rightarrow> state \<Rightarrow> state" where
  "Invoice_updateStatus ident st s =
     s\<lparr> invoices := map (\<lambda>i. if i_id i = ident then i\<lparr> status := st \<rparr> else i) (invoices s) \<rparr>"

definition Invoice_updatePdfInfo :: "nat \<Rightarrow> string \<Rightarrow> state \<Rightarrow> state" where
  "Invoice_updatePdfInfo ident url s =
     s\<lparr> invoices := map (\<lambda>i. if i_id i = ident then i\<lparr> pdf_url := Some url \<rparr> else i)
                       (invoices s) \<rparr>"

definition Invoice_updateAiValidation :: "nat \<Rightarrow> string \<Rightarrow> int \<Rightarrow> state \<Rightarrow> state" where
  "Invoice_updateAiValidation ident validationStatus anomalyScore s =
     s\<lparr> invoices := map (\<lambda>i. if i_id i = ident
                              then i\<lparr> ai_validation_status := validationStatus,
                                      ai_anomaly_score := anomalyScore \<rparr>
                              else i) (invoices s) \<rparr>"



definition is_due :: "world \<Rightarrow> contract \<Rightarrow> bool" where
  "is_due w c \<longleftrightarrow>
     is_active c
     \<and> (case next_billing_date c of None \<Rightarrow> False | Some d \<Rightarrow> dayNumber d \<le> Day (clock w))"

definition billing_day :: "contract \<Rightarrow> int" where
  "billing_day c = (case next_billing_date c of None \<Rightarrow> 0 | Some d \<Rightarrow> dayNumber d)"

definition Contract_findDueForBilling :: "world \<Rightarrow> contract list io" where
  "Contract_findDueForBilling w =
     (\<lambda>s. if due_query_fails w then (Inl (Error ''connection refused''), s)
           else (Inr (sort_key billing_day (filter (is_due w) (contracts s))), s))"

definition Contract_findById :: "nat \<Rightarrow> state \<Rightarrow> contract option" where
  "Contract_findById ident s = find (\<lambda>c. c_id c = ident) (contracts s)"

definition Contract_updateNextBillingDate :: "nat \<Rightarrow> ymd option \<Rightarrow> state \<Rightarrow> state" where
  "Contract_updateNextBillingDate ident nextDate s =
     s\<lparr> contracts := map (\<lambda>c. if c_id c = ident then c\<lparr> next_billing_date := nextDate \<rparr> else c)
                        (contracts s) \<rparr>"

text \<open>\<open>auditManager.logAction\<close>: action type, entity and a note.\<close>

definition logAction :: "string \<Rightarrow> nat option \<Rightarrow> string \<Rightarrow> unit io" where
  "logAction action_type entity_id note =
     io_modify (\<lambda>s. s\<lparr> audit_logs := audit_logs s @ [(action_type, entity_id, note)] \<rparr>)"


subsection \<open>PDF, storage and mail\<close>

definition not_found :: "string \<Rightarrow> nat \<Rightarrow> exn" where
  "not_found what ident = Error (what @ '' '' @ show_int (int ident) @ '' not found'')"

definition generatePDF :: "world \<Rightarrow> nat \<Rightarrow> unit io" where
  "generatePDF w invoiceId =
     io_bind (io_get (Invoice_findById invoiceId)) (\<lambda>found.
       case found of
         None \<Rightarrow> io_throw (not_found ''Invoice'' invoiceId)
       | Some invoice \<Rightarrow>
           if pdf_fails w invoiceId then io_throw (Error ''PDF generation failed'')
           else io_return ())"

definition uploadAndUpdateInvoice :: "world \<Rightarrow> nat \<Rightarrow> unit io" where
  "uploadAndUpdateInvoice w invoiceId =
     (case upload_url w invoiceId of
        None \<Rightarrow> io_throw (Error ''PDF upload failed'')
      | Some url \<Rightarrow> io_modify (Invoice_updatePdfInfo invoiceId url))"

text \<open>\<open>transporter.sendMail\<close>: the transport accepts the message or rejects the promise.\<close>

definition sendMail :: "world \<Rightarrow> string \<Rightarrow> nat \<Rightarrow> unit io" where
  "sendMail w kind invoiceId =
     (\<lambda>s. if smtp_accepts w kind invoiceId
           then (Inr (), s\<lparr> outbox := outbox s @ [(kind, invoiceId)] \<rparr>)
           else (Inl (Error ''SMTP error''), s))"

definition sendInvoiceEmail :: "world \<Rightarrow> nat \<Rightarrow> unit io" where
  "sendInvoiceEmail w invoiceId =
     io_catch
       (io_bind (io_get (Invoice_findById invoiceId)) (\<lambda>found.
          case found of
            None \<Rightarrow> io_throw (not_found ''Invoice'' invoiceId)
          | Some invoice \<Rightarrow>
              (case pdf_url invoice of
                 None \<Rightarrow> io_throw (Error ''Invoice has no PDF URL'')
               | Some url \<Rightarrow>
                   io_bind (sendMail w ''invoice'' invoiceId) (\<lambda>info.
                   io_bind (io_modify (Invoice_updateStatus invoiceId ''sent'')) (\<lambda>_.
                   logAction ''EMAIL_SENT'' (Some invoiceId) ''sent'')))))
       (\<lambda>error.
          io_bind (logAction ''EMAIL_SENT'' (Some invoiceId) ''failed'') (\<lambda>_. io_throw error))"

definition daysOverdue :: "world \<Rightarrow> invoice \<Rightarrow> int" where
  "daysOverdue w invoice = (clock w - parseDate (due_date invoice)) div msPerDay"



subsection \<open>AIValidator.validateInvoice\<close>

definition fallback_verdict :: verdict where
  "fallback_verdict =
     \<lparr> validation_status = ''failed'', anomaly_score = 100,
       flags = Some [''AI validation failed - manual review required''],
       suggestions = Some ''Please manually review this invoice due to AI validation error.'',
       confidence = Some 0, duplicate_check = None \<rparr>"

definition performValidation :: "world \<Rightarrow> invoice \<Rightarrow> verdict" where
  "performValidation w invoice =
     (case ai_validation w (i_id invoice) of None \<Rightarrow> fallback_verdict | Some v \<Rightarrow> v)"

definition no_recent_invoices :: dupcheck where
  "no_recent_invoices =
     \<lparr> is_duplicate = False, duplicate_of = None, similarity_score = 0,
       explanation = ''No recent invoices found for comparison'' \<rparr>"

definition duplicate_check_failed :: dupcheck where
  "duplicate_check_failed =
     \<lparr> is_duplicate = False, duplicate_of = None, similarity_score = 0,
       explanation = ''Duplicate check failed - proceeding with caution'' \<rparr>"

definition checkDuplicates :: "world \<Rightarrow> invoice \<Rightarrow> state \<Rightarrow> dupcheck" where
  "checkDuplicates w invoice s =
     (let thirtyDaysAgo =
            setDate (zone_offset w) (clock w) (getDate (zone_offset w) (clock w) - 30);
          allInvoices = Invoice_findAll 1000 s;
          recentInvoices =
            filter (\<lambda>inv. invoice_data.customer_id inv = invoice_data.customer_id invoice
                          \<and> i_id inv \<noteq> i_id invoice \<and> created_at inv \<ge> thirtyDaysAgo)
                   allInvoices
      in if recentInvoices = [] then no_recent_invoices
         else (case ai_duplicate w (i_id invoice) of
                 None \<Rightarrow> duplicate_check_failed
               | Some d \<Rightarrow> d))"

definition validateInvoice :: "world \<Rightarrow> nat \<Rightarrow> verdict io" where
  "validateInvoice w invoiceId =
     io_catch
       (io_bind (io_get (Invoice_findById invoiceId)) (\<lambda>found.
          case found of
            None \<Rightarrow> io_throw (not_found ''Invoice'' invoiceId)
          | Some invoice \<Rightarrow>
              io_bind (io_get (Contract_findById (contract_id invoice))) (\<lambda>found_contract.
                case found_contract of
                  None \<Rightarrow> io_throw (not_found ''Contract'' (contract_id invoice))
                | Some contract \<Rightarrow>
                    io_bind (io_return (performValidation w invoice)) (\<lambda>validationResult.
                    io_bind (io_get (checkDuplicates w invoice)) (\<lambda>duplicateCheck.
                    (let finalResult = combineResults validationResult duplicateCheck
                     in io_bind (io_modify (\<lambda>s. s\<lparr> validation_logs :=
                                     validation_logs s @ [(invoiceId, finalResult)] \<rparr>)) (\<lambda>_.
                        io_bind (io_modify (Invoice_updateAiValidation invoiceId
                                   (validation_status finalResult)
                                   (anomaly_score finalResult))) (\<lambda>_.
                        io_bind (logAction ''AI_VALIDATION'' (Some invoiceId)
                                   (validation_status finalResult)) (\<lambda>_.
                        io_return finalResult)))))))))
       (\<lambda>error. io_throw error)"


subsection \<open>BillingScheduler\<close>

text \<open>\<open>new Date(contract.next_billing_date)\<close>; \<open>new Date(null)\<close> is the epoch.\<close>

definition newDate :: "ymd option \<Rightarrow> int" where
  "newDate d = (case d of None \<Rightarrow> 0 | Some c \<Rightarrow> parseDate c)"

text \<open>
  The steps of \<open>processContract\<close> after the validation: "Step 6: Send email if validated"
  and "Step 7: Update next billing date".
\<close>

definition sendIfValidated :: "world \<Rightarrow> invoice \<Rightarrow> verdict \<Rightarrow> unit io" where
  "sendIfValidated w invoice validationResult =
     (if validation_status validationResult = ''validated''
      then io_bind (sendInvoiceEmail w (i_id invoice)) (\<lambda>_.
           io_modify (\<lambda>s. s\<lparr> billing_results := (billing_results s)
                        \<lparr> successful := successful (billing_results s) + 1 \<rparr> \<rparr>))
      else io_modify (\<lambda>s. s\<lparr> billing_results := (billing_results s)
                        \<lparr> flagged := flagged (billing_results s) + 1 \<rparr> \<rparr>))"

definition updateNextBillingDate :: "world \<Rightarrow> contract \<Rightarrow> unit io" where
  "updateNextBillingDate w contract =
     io_modify (Contract_updateNextBillingDate (c_id contract)
        (calculateNextBillingDate (zone_offset w) (newDate (next_billing_date contract))
           (billing_frequency contract)))"

definition processContract :: "world \<Rightarrow> contract \<Rightarrow> unit io" where
  "processContract w contract =
     io_bind (Invoice_create w
                (calculateInvoiceAmounts (zone_offset w) (clock w) (random_draw w (c_id contract))
                   contract)) (\<lambda>invoice.
     io_bind (logAction ''INVOICE_GENERATED'' (Some (i_id invoice)) (invoice_number invoice)) (\<lambda>_.
     io_bind (generatePDF w (i_id invoice)) (\<lambda>pdfBuffer.
     io_bind (uploadAndUpdateInvoice w (i_id invoice)) (\<lambda>_.
     io_bind (validateInvoice w (i_id invoice)) (\<lambda>validationResult.
     io_bind (sendIfValidated w invoice validationResult) (\<lambda>_.
     updateNextBillingDate w contract))))))"

definition contract_failed :: "contract \<Rightarrow> exn \<Rightarrow> unit io" where
  "contract_failed contract error =
     io_modify (\<lambda>s. s\<lparr> billing_results := (billing_results s)
        \<lparr> failed := failed (billing_results s) + 1,
          errors := errors (billing_results s)
                      @ [(c_id contract, case error of Error message \<Rightarrow> message)] \<rparr> \<rparr>)"

text \<open>The body of the loop: \<open>try { await this.processContract(...) } catch (error) { ... }\<close>.\<close>

definition billing_step :: "world \<Rightarrow> contract \<Rightarrow> unit io" where
  "billing_step w contract = io_catch (processContract w contract) (contract_failed contract)"

definition billing_body :: "world \<Rightarrow> unit io" where
  "billing_body w =
     io_bind (Contract_findDueForBilling w) (\<lambda>dueContracts.
       if dueContracts = [] then io_modify (\<lambda>s. s\<lparr> billing_isRunning := False \<rparr>)
       else
         io_bind (io_modify (\<lambda>s. s\<lparr> billing_results :=
                    \<lparr> total = length dueContracts, successful = 0, failed = 0, flagged = 0,
                      errors = [] \<rparr> \<rparr>)) (\<lambda>_.
         io_bind (forEach (billing_step w) dueContracts) (\<lambda>_.
         logAction ''BILLING_CYCLE_COMPLETED'' None ''system'')))"

definition executeBillingCycle :: "world \<Rightarrow> unit io" where
  "executeBillingCycle w =
     (\<lambda>s. if billing_isRunning s then (Inr (), s)
           else io_finally (io_catch (billing_body w) (\<lambda>error. io_return ()))
                  (\<lambda>s. s\<lparr> billing_isRunning := False \<rparr>)
                  (s\<lparr> billing_isRunning := True \<rparr>))"


subsection \<open>ReminderScheduler\<close>








text \<open>
  The reminders that the transport has accepted for an invoice, and the state after the
  scheduled reminder cycles of a list of days, each with its own clock and collaborators.
\<close>

definition reminders_to :: "nat \<Rightarrow> state \<Rightarrow> nat" where
  "reminders_to k s = count_list (outbox s) (''reminder'', k)"


subsection \<open>The scenario of the specification as a state of the system\<close>

text \<open>
  One customer with the scenario contract, due on 2024-12-08; the billing job fires that day
  at 09:00 UTC. The AI service finds the invoice correct, there is no earlier invoice to
  compare with, and every collaborator answers.
\<close>

definition clean_verdict :: verdict where
  "clean_verdict =
     \<lparr> validation_status = ''validated'', anomaly_score = 0, flags = Some [],
       suggestions = Some [], confidence = Some 95, duplicate_check = None \<rparr>"

definition scenario_state :: state where
  "scenario_state =
     \<lparr> contracts = [scenario_contract], invoices = [], validation_logs = [], audit_logs = [],
       outbox = [], billing_isRunning = False,
       billing_results = \<lparr> total = 0, successful = 0, failed = 0, flagged = 0, errors = [] \<rparr>,
       reminder_isRunning = False,
       reminder_results = \<lparr> r_total = 0, reminders_sent = 0, skipped = 0, r_failed = 0,
         low = 0, medium = 0, high = 0, critical = 0 \<rparr> \<rparr>"

definition scenario_world :: world where
  "scenario_world =
     \<lparr> zone_offset = 0, clock = 1733648400000, random_draw = (\<lambda>_. 42),
       due_query_fails = False, overdue_query_fails = False, pdf_fails = (\<lambda>_. False),
       upload_url = (\<lambda>_. Some ''https://res.cloudinary.com/billeragi/invoice.pdf''),
       ai_validation = (\<lambda>_. Some clean_verdict), ai_duplicate = (\<lambda>_. None),
       smtp_accepts = (\<lambda>_ _. True) \<rparr>"

text \<open>
  What an operator sees of a state: the next billing dates of the contracts, the invoices
  (number, status, AI status and score), the accepted messages and the billing results.
\<close>

definition observe ::
  "state \<Rightarrow> ymd option list \<times> (string \<times> string \<times> string \<times> int) list \<times> (string \<times> nat) list \<times> results"
  where
  "observe s =
     (map next_billing_date (contracts s),
      map (\<lambda>i. (invoice_number i, status i, ai_validation_status i, ai_anomaly_score i))
        (invoices s),
      outbox s, billing_results s)"

text \<open>The same morning with the mail transport down, and with the AI service down.\<close>

definition smtp_down :: world where
  "smtp_down = scenario_world\<lparr> smtp_accepts := (\<lambda>_ _. False) \<rparr>"







section \<open>Properties of calls and of states\<close>

text \<open>
  \<open>io_keeps g m\<close>: the call \<open>m\<close> leaves the part \<open>g\<close> of the state as it was, however it ends.
  \<open>io_returns m Q\<close>: every value that \<open>m\<close> resolves with satisfies \<open>Q\<close>.
  \<open>throw_keeps g m\<close>: when \<open>m\<close> rejects, \<open>g\<close> is as it was.
\<close>

definition io_keeps :: "(state \<Rightarrow> 'b) \<Rightarrow> 'a io \<Rightarrow> bool" where
  "io_keeps g m \<longleftrightarrow> (\<forall>s. g (snd (m s)) = g s)"


definition throw_keeps :: "(state \<Rightarrow> 'b) \<Rightarrow> 'a io \<Rightarrow> bool" where
  "throw_keeps g m \<longleftrightarrow> (\<forall>s e s'. m s = (Inl e, s') \<longrightarrow> g s' = g s)"


definition reminder_inv :: "state \<Rightarrow> bool" where
  "reminder_inv s \<longleftrightarrow>
     distinct (map i_id (invoices s))
     \<and> (\<forall>k. reminders_to k s \<le> 1
            \<and> (reminders_to k s = 1 \<longrightarrow>
                 (\<forall>i \<in> set (invoices s). i_id i = k \<longrightarrow> status i = ''overdue'')))"


section \<open>The calendar\<close>













lemma monthStart_next:
  "0 \<le> m \<Longrightarrow> m \<le> 10 \<Longrightarrow> monthStart (InLeapYear_of y) (m + 1) =
     monthStart (InLeapYear_of y) m + DaysInMonth y m"
proof -
  assume "0 \<le> m" "m \<le> 10"
  then have "m = 0 \<or> m = 1 \<or> m = 2 \<or> m = 3 \<or> m = 4 \<or> m = 5 \<or> m = 6 \<or> m = 7 \<or> m = 8
      \<or> m = 9 \<or> m = 10" by arith
  then show ?thesis
    by (elim disjE) (simp_all add: monthStart_def DaysInMonth_def)
qed



section \<open>Reminder cadence\<close>

lemma shouldSendReminder_iff:
  "shouldSendReminder d \<longleftrightarrow>
     d \<in> {3, 7, 10, 14} \<or> (15 \<le> d \<and> d \<le> 30 \<and> d mod 5 = 0) \<or> (30 < d \<and> d mod 7 = 0)"
  unfolding shouldSendReminder_def by auto

lemma upto_1_40:
  "[1..40::int] = [1,2,3,4,5,6,7,8,9,10,11,12,13,14,15,16,17,18,19,20,
                   21,22,23,24,25,26,27,28,29,30,31,32,33,34,35,36,37,38,39,40]"
  by (simp add: upto.simps)

text \<open>
  Claim C3, as the specification states it: among the days overdue 1..40 a reminder is sent
  exactly on the days 3, 7, 10, 14, 20, 25, 30 and 35. The code refutes it on day 15: the
  branch for days 15 to 30 sends on every multiple of 5, and 15 is one.
\<close>

theorem C3_day_15_counterexample:
  "\<not> (shouldSendReminder 15 \<longleftrightarrow> (15::int) \<in> {3, 7, 10, 14, 20, 25, 30, 35})"
  by (simp add: shouldSendReminder_def)

text \<open>
  Claim C3, amended: among the days overdue 1..40 a reminder is sent exactly on the days
  3, 7, 10, 14, 15, 20, 25, 30 and 35.
\<close>

theorem C3_reminder_days_1_to_40:
  "filter shouldSendReminder [1..40] = [3, 7, 10, 14, 15, 20, 25, 30, 35]"
  unfolding upto_1_40 by (simp add: shouldSendReminder_def)


section \<open>Validation combiner\<close>

text \<open>
  Claim C4: for every correctness verdict and duplicate-check verdict the combined status is
  \<open>flagged\<close> when the combined anomaly score is at least 70 and \<open>validated\<close> otherwise; no
  third status is produced, so a score in [40,70) is \<open>validated\<close>, and the flags of the
  correctness verdict are kept at the front of the combined flags.
\<close>

theorem C4_status_from_score:
  "validation_status (combineResults v d) =
     (if 70 \<le> anomaly_score (combineResults v d) then ''flagged'' else ''validated'')
   \<and> (\<exists>fs. flags (combineResults v d) = Some fs \<and> prefix (flags_or_empty v) fs)"
  by (simp add: combineResults_def status_branch_def duplicate_branch_def Let_def)




section \<open>Billing calculator\<close>



















text \<open>
  The amounts of an invoice are rounded one by one, so the fields of an invoice need not add
  up: for amount 1.00, tax rate 0.4 and discount 0.6 the invoice reads subtotal 1.00,
  tax 0.00, discount 0.01 and total 1.00.
\<close>

lemma rounded_fields_cent_gap:
  "subtotal (calculateInvoiceAmounts tza now rnd
      (scenario_contract\<lparr> amount := 1, tax_rate := Some (4 / 10),
         discount_percentage := Some (6 / 10) \<rparr>)) = 1
   \<and> tax_amount (calculateInvoiceAmounts tza now rnd
      (scenario_contract\<lparr> amount := 1, tax_rate := Some (4 / 10),
         discount_percentage := Some (6 / 10) \<rparr>)) = 0
   \<and> discount_amount (calculateInvoiceAmounts tza now rnd
      (scenario_contract\<lparr> amount := 1, tax_rate := Some (4 / 10),
         discount_percentage := Some (6 / 10) \<rparr>)) = 1 / 100
   \<and> total_amount (calculateInvoiceAmounts tza now rnd
      (scenario_contract\<lparr> amount := 1, tax_rate := Some (4 / 10),
         discount_percentage := Some (6 / 10) \<rparr>)) = 1"
proof -
  have "toFixed2 1 = 1" "toFixed2 (1 * (4 / 10) / 100) = 0" "toFixed2 (1 * (6 / 10) / 100) = 1 / 100"
    "toFixed2 (1 + 1 * (4 / 10) / 100 - 1 * (6 / 10) / 100) = 1"
    by code_simp+
  then show ?thesis
    by (simp add: calculateInvoiceAmounts_def Let_def number_or_0_def)
qed


section \<open>Due date and next billing date\<close>






section \<open>Reasoning about calls\<close>

lemma keeps_return: "io_keeps g (io_return x)"
  by (simp add: io_keeps_def io_return_def)

lemma keeps_throw: "io_keeps g (io_throw e)"
  by (simp add: io_keeps_def io_throw_def)

lemma keeps_get: "io_keeps g (io_get f)"
  by (simp add: io_keeps_def io_get_def)

lemma keeps_modify: "(\<And>s. g (f s) = g s) \<Longrightarrow> io_keeps g (io_modify f)"
  by (simp add: io_keeps_def io_modify_def)

lemma keeps_bind:
  assumes "io_keeps g m" "\<And>x. io_keeps g (f x)"
  shows "io_keeps g (io_bind m f)"
  unfolding io_keeps_def io_bind_def
proof
  fix s
  obtain r s' where ms: "m s = (r, s')" by (cases "m s")
  with assms(1) have "g s' = g s" unfolding io_keeps_def by (metis snd_conv)
  with ms assms(2) show "g (snd (case m s of (Inl e, s') \<Rightarrow> (Inl e, s') | (Inr x, s') \<Rightarrow> f x s')) = g s"
    unfolding io_keeps_def by (cases r) simp_all
qed


lemma keeps_catch:
  assumes "io_keeps g m" "\<And>e. io_keeps g (h e)"
  shows "io_keeps g (io_catch m h)"
  unfolding io_keeps_def io_catch_def
proof
  fix s
  obtain r s' where ms: "m s = (r, s')" by (cases "m s")
  with assms(1) have "g s' = g s" unfolding io_keeps_def by (metis snd_conv)
  with ms assms(2) show "g (snd (case m s of (Inl e, s') \<Rightarrow> h e s' | (Inr x, s') \<Rightarrow> (Inr x, s'))) = g s"
    unfolding io_keeps_def by (cases r) simp_all
qed

lemma keeps_forEach:
  assumes "\<And>x. io_keeps g (f x)"
  shows "io_keeps g (forEach f xs)"
  by (induction xs) (simp_all add: keeps_return keeps_bind assms)

lemma keeps_if: "io_keeps g a \<Longrightarrow> io_keeps g b \<Longrightarrow> io_keeps g (if c then a else b)"
  by simp

lemma keeps_option:
  "io_keeps g a \<Longrightarrow> (\<And>x. io_keeps g (b x)) \<Longrightarrow> io_keeps g (case v of None \<Rightarrow> a | Some x \<Rightarrow> b x)"
  by (cases v) simp_all

lemma keeps_let: "io_keeps g (f v) \<Longrightarrow> io_keeps g (Let v f)"
  by simp

lemmas keeps_intros = keeps_return keeps_throw keeps_get keeps_bind keeps_catch keeps_forEach
  keeps_if keeps_option keeps_let

lemma keeps_logAction:
  "(\<And>s x. g (s\<lparr> audit_logs := x \<rparr>) = g s) \<Longrightarrow> io_keeps g (logAction a e n)"
  unfolding logAction_def by (rule keeps_modify) simp

lemma keeps_Invoice_create:
  "(\<And>s x. g (s\<lparr> invoices := x \<rparr>) = g s) \<Longrightarrow> io_keeps g (Invoice_create w d)"
  by (simp add: io_keeps_def Invoice_create_def Let_def)

lemma keeps_generatePDF: "io_keeps g (generatePDF w k)"
  unfolding generatePDF_def by (intro keeps_intros)

lemma keeps_upload:
  "(\<And>s x. g (s\<lparr> invoices := x \<rparr>) = g s) \<Longrightarrow> io_keeps g (uploadAndUpdateInvoice w k)"
  unfolding uploadAndUpdateInvoice_def
  by (intro keeps_intros keeps_modify) (simp add: Invoice_updatePdfInfo_def)

lemma keeps_validateInvoice:
  assumes "\<And>s x. g (s\<lparr> invoices := x \<rparr>) = g s" "\<And>s x. g (s\<lparr> audit_logs := x \<rparr>) = g s"
    "\<And>s x. g (s\<lparr> validation_logs := x \<rparr>) = g s"
  shows "io_keeps g (validateInvoice w k)"
  unfolding validateInvoice_def
  by (intro keeps_intros keeps_modify keeps_logAction)
    (simp_all add: assms Invoice_updateAiValidation_def)

lemma keeps_sendMail:
  "(\<And>s x. g (s\<lparr> outbox := x \<rparr>) = g s) \<Longrightarrow> io_keeps g (sendMail w kind k)"
  by (simp add: io_keeps_def sendMail_def)

lemma keeps_sendInvoiceEmail:
  assumes "\<And>s x. g (s\<lparr> invoices := x \<rparr>) = g s" "\<And>s x. g (s\<lparr> audit_logs := x \<rparr>) = g s"
    "\<And>s x. g (s\<lparr> outbox := x \<rparr>) = g s"
  shows "io_keeps g (sendInvoiceEmail w k)"
  unfolding sendInvoiceEmail_def
  by (intro keeps_intros keeps_modify keeps_logAction keeps_sendMail)
    (simp_all add: assms Invoice_updateStatus_def)

lemma keeps_sendIfValidated:
  assumes "\<And>s x. g (s\<lparr> invoices := x \<rparr>) = g s" "\<And>s x. g (s\<lparr> audit_logs := x \<rparr>) = g s"
    "\<And>s x. g (s\<lparr> outbox := x \<rparr>) = g s" "\<And>s x. g (s\<lparr> billing_results := x \<rparr>) = g s"
  shows "io_keeps g (sendIfValidated w i v)"
  unfolding sendIfValidated_def
  by (intro keeps_intros keeps_modify keeps_sendInvoiceEmail) (simp_all add: assms)




lemma throw_keeps_modify: "throw_keeps g (io_modify f)"
  by (simp add: throw_keeps_def io_modify_def)

lemma throw_keeps_bind:
  assumes "io_keeps g m" "\<And>x. throw_keeps g (f x)"
  shows "throw_keeps g (io_bind m f)"
  unfolding throw_keeps_def
proof (intro allI impI)
  fix s e s'
  assume b: "io_bind m f s = (Inl e, s')"
  obtain r s1 where ms: "m s = (r, s1)" by (cases "m s")
  with assms(1) have k: "g s1 = g s" unfolding io_keeps_def by (metis snd_conv)
  show "g s' = g s"
  proof (cases r)
    case (Inl a)
    with ms b k show ?thesis by (simp add: io_bind_def)
  next
    case (Inr x)
    with ms b have "f x s1 = (Inl e, s')" by (simp add: io_bind_def)
    with assms(2) have "g s' = g s1" unfolding throw_keeps_def by blast
    with k show ?thesis by simp
  qed
qed

lemma processContract_throw_keeps_contracts: "throw_keeps contracts (processContract w c)"
  unfolding processContract_def updateNextBillingDate_def
  by (intro throw_keeps_bind throw_keeps_modify keeps_logAction
      keeps_Invoice_create keeps_generatePDF keeps_upload keeps_validateInvoice
      keeps_sendIfValidated)
    simp_all

lemma failed_contract_keeps_its_date:
  assumes "processContract w c s = (Inl e, s')"
  shows "contracts s' = contracts s"
  using processContract_throw_keeps_contracts assms unfolding throw_keeps_def by blast













section \<open>The invariant of the reminder cycles\<close>




lemma reminder_inv_cong:
  "invoices s' = invoices s \<Longrightarrow> outbox s' = outbox s \<Longrightarrow> reminder_inv s' = reminder_inv s"
  by (simp add: reminder_inv_def reminders_to_def)









section \<open>Email failure and the next billing date\<close>

text \<open>
  The scenario with every collaborator answering: the invoice is validated and sent, and
  the contract is rescheduled to 2025-01-08.
\<close>

lemma billing_scenario_succeeds:
  "observe (snd (executeBillingCycle scenario_world scenario_state))
     = ([Some \<lparr> year = 2025, month = 1, day = 8 \<rparr>],
        [(''INV-20241208-0042'', ''sent'', ''validated'', 0)],
        [(''invoice'', 1)],
        \<lparr> total = 1, successful = 1, failed = 0, flagged = 0, errors = [] \<rparr>)"
  by code_simp

text \<open>
  Claim C1 says that a contract whose invoice was computed and validated has its next
  billing date advanced even when the email step fails. In the code the rejection of
  \<open>sendInvoiceEmail\<close> leaves \<open>processContract\<close> before its step 7: with the mail transport
  down, the scenario contract is counted as failed, its invoice stays in the table as
  \<open>pending\<close> (it is not rolled back), nothing is sent, and the next billing date is still
  2024-12-08.
\<close>

theorem C1_email_failure_keeps_billing_date:
  "observe (snd (executeBillingCycle smtp_down scenario_state))
     = ([Some \<lparr> year = 2024, month = 12, day = 8 \<rparr>],
        [(''INV-20241208-0042'', ''pending'', ''validated'', 0)],
        [],
        \<lparr> total = 1, successful = 0, failed = 1, flagged = 0, errors = [(1, ''SMTP error'')] \<rparr>)"
  by code_simp

text \<open>
  The contract is therefore due again: the cycle of the next morning, the transport still
  down, inserts a second invoice for the same billing period.
\<close>

lemma email_failure_bills_again:
  "observe (snd (executeBillingCycle
       (smtp_down\<lparr> clock := 1733734800000, random_draw := (\<lambda>_. 43) \<rparr>)
       (snd (executeBillingCycle smtp_down scenario_state))))
     = ([Some \<lparr> year = 2024, month = 12, day = 8 \<rparr>],
        [(''INV-20241208-0042'', ''pending'', ''validated'', 0),
         (''INV-20241209-0043'', ''pending'', ''validated'', 0)],
        [],
        \<lparr> total = 1, successful = 0, failed = 1, flagged = 0, errors = [(1, ''SMTP error'')] \<rparr>)"
  by code_simp


section \<open>Failure of the AI service\<close>





section \<open>At most one scheduled reminder\<close>





end
